theory Spec2Isabelle
  imports Main
begin

section \<open>Workflow store (store/workflowStore.ts)\<close>

text \<open>
  The zustand store of the workflow snapshot. Every action is a function from the store to
  the store. An \<open>async\<close> action that awaits one HTTP call is split where it awaits: the
  part that runs up to the request (\<open>_start\<close>), and the part that runs when the call has
  settled (\<open>_settle\<close>); the action run without interleaving is their composition, with the
  server's answer as a parameter.
\<close>

datatype WorkflowPhase =
    INITIAL | URL_COLLECTION | URL_VALIDATION | SCHEMA_DEFINITION | SCHEMA_VALIDATION
  | CODE_GENERATION | READY_TO_EXECUTE | EXECUTING | COMPLETED | ERROR

datatype Relevance = High | Medium | Low

record URLInfo =
  url :: string
  url_description :: string
  relevance :: Relevance
  validated :: bool
  validation_reason :: "string option"
  added_at :: string
  added_by :: string

record SchemaField =
  sf_name :: string
  sf_type :: string
  sf_description :: string
  sf_required :: bool
  sf_example :: "string option"

datatype ApprovalStatus = Pending | Approved | Rejected | Expired

record ApprovalRequest =
  ap_id :: string
  ap_phase :: WorkflowPhase
  ap_action :: string
  ap_data :: string
  ap_created_at :: string
  ap_expires_at :: "string option"
  ap_status :: ApprovalStatus

record WorkflowTransition =
  from_phase :: WorkflowPhase
  to_phase :: WorkflowPhase
  tr_timestamp :: string
  tr_reason :: "string option"
  triggered_by :: string

record WorkflowState =
  pipeline_id :: string
  phase :: WorkflowPhase
  urls :: "URLInfo list"
  urls_validated :: bool
  schema_fields :: "SchemaField list"
  schema_validated :: bool
  generated_code :: string
  code_validated :: bool
  execution_results :: "string list"
  execution_status :: "string option"
  pending_approvals :: "ApprovalRequest list"
  approval_history :: "ApprovalRequest list"
  phase_transitions :: "WorkflowTransition list"
  user_modifications :: "string list"
  created_at :: string
  updated_at :: string
  created_by :: string
  last_modified_by :: string
  version :: int

record WorkflowStore =
  currentWorkflow :: "WorkflowState option"
  workflowHistory :: "WorkflowTransition list"
  pendingApprovals :: "ApprovalRequest list"
  isProcessing :: bool
  error :: "string option"

definition initialWorkflowStore :: WorkflowStore where
  "initialWorkflowStore =
     \<lparr>currentWorkflow = None, workflowHistory = [], pendingApprovals = [],
      isProcessing = False, error = None\<rparr>"

subsection \<open>The HTTP client as seen by the store\<close>

text \<open>
  An axios call either rejects (the rejection may carry \<open>response.data.detail\<close>) or resolves
  with the payload the action reads. The requests the store issues are collected, so that
  "no request is issued" is a statement about a value.
\<close>

datatype 'a http_result = HttpFailure "string option" | HttpSuccess 'a

record PipelineUpdate =
  pu_name :: "string option"
  pu_description :: "string option"
  pu_urls :: "string list option"
  pu_schema :: "(string \<times> string) list option"
  pu_code :: "string option"

datatype RequestBody =
    UrlsBody "URLInfo list"
  | SchemaBody "SchemaField list"
  | ApproveBody string bool "string option"
  | TransitionBody WorkflowPhase "string option"
  | PipelineBody PipelineUpdate

datatype ApiRequest = ApiGet string | ApiPost string RequestBody | ApiPut string RequestBody

type_synonym workflow_api = "ApiRequest \<Rightarrow> WorkflowState option http_result"

text \<open>\<open>error.response?.data?.detail || fallback\<close>: a missing or empty detail is falsy.\<close>

definition detail_or :: "string option \<Rightarrow> string \<Rightarrow> string" where
  "detail_or d fallback = (case d of None \<Rightarrow> fallback | Some t \<Rightarrow> if t = [] then fallback else t)"

subsection \<open>Synchronous actions\<close>

definition setWorkflow :: "WorkflowState \<Rightarrow> WorkflowStore \<Rightarrow> WorkflowStore" where
  "setWorkflow workflow s =
     s\<lparr>currentWorkflow := Some workflow,
       pendingApprovals := pending_approvals workflow,
       workflowHistory := phase_transitions workflow\<rparr>"




subsection \<open>Server-backed actions\<close>

definition updateURLs_start :: "URLInfo list \<Rightarrow> WorkflowStore \<Rightarrow> WorkflowStore \<times> ApiRequest option" where
  "updateURLs_start us s =
     (case currentWorkflow s of
        None \<Rightarrow> (s, None)
      | Some w \<Rightarrow>
          (s\<lparr>isProcessing := True, error := None\<rparr>,
           Some (ApiPost (''/workflow/'' @ pipeline_id w @ ''/urls'') (UrlsBody us))))"

definition updateURLs_settle :: "WorkflowState option http_result \<Rightarrow> WorkflowStore \<Rightarrow> WorkflowStore" where
  "updateURLs_settle r s =
     (case r of
        HttpSuccess w \<Rightarrow> s\<lparr>currentWorkflow := w\<rparr>
      | HttpFailure d \<Rightarrow> s\<lparr>error := Some (detail_or d ''Failed to update URLs'')\<rparr>)
     \<lparr>isProcessing := False\<rparr>"

definition updateURLs :: "workflow_api \<Rightarrow> URLInfo list \<Rightarrow> WorkflowStore \<Rightarrow> WorkflowStore \<times> ApiRequest list" where
  "updateURLs api us s =
     (case updateURLs_start us s of
        (s1, None) \<Rightarrow> (s1, [])
      | (s1, Some rq) \<Rightarrow> (updateURLs_settle (api rq) s1, [rq]))"

definition updateSchema_start :: "SchemaField list \<Rightarrow> WorkflowStore \<Rightarrow> WorkflowStore \<times> ApiRequest option" where
  "updateSchema_start flds s =
     (case currentWorkflow s of
        None \<Rightarrow> (s, None)
      | Some w \<Rightarrow>
          (s\<lparr>isProcessing := True, error := None\<rparr>,
           Some (ApiPost (''/workflow/'' @ pipeline_id w @ ''/schema'') (SchemaBody flds))))"

definition updateSchema_settle :: "WorkflowState option http_result \<Rightarrow> WorkflowStore \<Rightarrow> WorkflowStore" where
  "updateSchema_settle r s =
     (case r of
        HttpSuccess w \<Rightarrow> s\<lparr>currentWorkflow := w\<rparr>
      | HttpFailure d \<Rightarrow> s\<lparr>error := Some (detail_or d ''Failed to update schema'')\<rparr>)
     \<lparr>isProcessing := False\<rparr>"

definition updateSchema :: "workflow_api \<Rightarrow> SchemaField list \<Rightarrow> WorkflowStore \<Rightarrow> WorkflowStore \<times> ApiRequest list" where
  "updateSchema api flds s =
     (case updateSchema_start flds s of
        (s1, None) \<Rightarrow> (s1, [])
      | (s1, Some rq) \<Rightarrow> (updateSchema_settle (api rq) s1, [rq]))"

definition approveAction_start ::
  "string \<Rightarrow> bool \<Rightarrow> string option \<Rightarrow> WorkflowStore \<Rightarrow> WorkflowStore \<times> ApiRequest option" where
  "approveAction_start approvalId approved reason s =
     (case currentWorkflow s of
        None \<Rightarrow> (s, None)
      | Some w \<Rightarrow>
          (s\<lparr>isProcessing := True, error := None\<rparr>,
           Some (ApiPost (''/workflow/'' @ pipeline_id w @ ''/approve'')
                   (ApproveBody approvalId approved reason))))"

text \<open>
  A response without a workflow makes \<open>response.data.workflow.pending_approvals\<close> throw
  inside the \<open>try\<close>, before \<open>set\<close> is called; the \<open>catch\<close> then stores the fallback message.
\<close>

definition approveAction_settle :: "WorkflowState option http_result \<Rightarrow> WorkflowStore \<Rightarrow> WorkflowStore" where
  "approveAction_settle r s =
     (case r of
        HttpSuccess (Some w) \<Rightarrow> s\<lparr>currentWorkflow := Some w, pendingApprovals := pending_approvals w\<rparr>
      | HttpSuccess None \<Rightarrow> s\<lparr>error := Some ''Failed to process approval''\<rparr>
      | HttpFailure d \<Rightarrow> s\<lparr>error := Some (detail_or d ''Failed to process approval'')\<rparr>)
     \<lparr>isProcessing := False\<rparr>"

definition approveAction ::
  "workflow_api \<Rightarrow> string \<Rightarrow> bool \<Rightarrow> string option \<Rightarrow> WorkflowStore \<Rightarrow> WorkflowStore \<times> ApiRequest list" where
  "approveAction api approvalId approved reason s =
     (case approveAction_start approvalId approved reason s of
        (s1, None) \<Rightarrow> (s1, [])
      | (s1, Some rq) \<Rightarrow> (approveAction_settle (api rq) s1, [rq]))"

definition transitionToPhase_start ::
  "WorkflowPhase \<Rightarrow> string option \<Rightarrow> WorkflowStore \<Rightarrow> WorkflowStore \<times> ApiRequest option" where
  "transitionToPhase_start p reason s =
     (case currentWorkflow s of
        None \<Rightarrow> (s, None)
      | Some w \<Rightarrow>
          (s\<lparr>isProcessing := True, error := None\<rparr>,
           Some (ApiPost (''/workflow/'' @ pipeline_id w @ ''/transition'') (TransitionBody p reason))))"

definition transitionToPhase_settle :: "WorkflowState option http_result \<Rightarrow> WorkflowStore \<Rightarrow> WorkflowStore" where
  "transitionToPhase_settle r s =
     (case r of
        HttpSuccess w \<Rightarrow> s\<lparr>currentWorkflow := w\<rparr>
      | HttpFailure d \<Rightarrow> s\<lparr>error := Some (detail_or d ''Failed to transition phase'')\<rparr>)
     \<lparr>isProcessing := False\<rparr>"

definition transitionToPhase ::
  "workflow_api \<Rightarrow> WorkflowPhase \<Rightarrow> string option \<Rightarrow> WorkflowStore \<Rightarrow> WorkflowStore \<times> ApiRequest list" where
  "transitionToPhase api p reason s =
     (case transitionToPhase_start p reason s of
        (s1, None) \<Rightarrow> (s1, [])
      | (s1, Some rq) \<Rightarrow> (transitionToPhase_settle (api rq) s1, [rq]))"

definition fetchWorkflow_start :: "string \<Rightarrow> WorkflowStore \<Rightarrow> WorkflowStore \<times> ApiRequest option" where
  "fetchWorkflow_start pipelineId s =
     (s\<lparr>isProcessing := True, error := None\<rparr>, Some (ApiGet (''/workflow/'' @ pipelineId)))"

definition fetchWorkflow_settle :: "WorkflowState option http_result \<Rightarrow> WorkflowStore \<Rightarrow> WorkflowStore" where
  "fetchWorkflow_settle r s =
     (case r of
        HttpSuccess w \<Rightarrow> s\<lparr>currentWorkflow := w\<rparr>
      | HttpFailure d \<Rightarrow> s\<lparr>error := Some (detail_or d ''Failed to fetch workflow'')\<rparr>)
     \<lparr>isProcessing := False\<rparr>"

definition fetchWorkflow :: "workflow_api \<Rightarrow> string \<Rightarrow> WorkflowStore \<Rightarrow> WorkflowStore \<times> ApiRequest list" where
  "fetchWorkflow api pipelineId s =
     (case fetchWorkflow_start pipelineId s of
        (s1, None) \<Rightarrow> (s1, [])
      | (s1, Some rq) \<Rightarrow> (fetchWorkflow_settle (api rq) s1, [rq]))"


subsection \<open>Consistency of the transition log with the phase\<close>



subsection \<open>Concrete snapshots\<close>

definition sample_workflow :: "int \<Rightarrow> WorkflowPhase \<Rightarrow> WorkflowState" where
  "sample_workflow v p =
     \<lparr>pipeline_id = ''p1'', phase = p, urls = [], urls_validated = False,
      schema_fields = [], schema_validated = False, generated_code = [],
      code_validated = False, execution_results = [], execution_status = None,
      pending_approvals = [], approval_history = [], phase_transitions = [],
      user_modifications = [], created_at = ''t0'', updated_at = ''t0'',
      created_by = ''user'', last_modified_by = ''user'', version = v\<rparr>"

definition sample_store :: "int \<Rightarrow> WorkflowPhase \<Rightarrow> WorkflowStore" where
  "sample_store v p = setWorkflow (sample_workflow v p) initialWorkflowStore"

definition reject_api :: workflow_api where
  "reject_api rq = HttpFailure (Some ''Invalid transition'')"

section \<open>Push transport (store/websocketStore.ts)\<close>

text \<open>
  The store holds a reference to a browser \<open>WebSocket\<close>, the connection status and the
  attempt counter. The sockets the store has created and the timers it has scheduled live
  in the browser; they are part of the modelled state, since \<open>onclose\<close> and the timer
  callback are closures over the pipeline id that run later. A socket is named by its
  position in the list of sockets created so far.
\<close>

datatype ConnectionStatus = Connecting | Connected | Disconnected

datatype ReadyState = CONNECTING | OPEN | CLOSING | CLOSED

datatype OutboundFrame = StateRequest | ApprovalFrame string bool "string option"

datatype js_error = InvalidStateError | TypeError

record WebSocket =
  ws_pipeline :: string
  readyState :: ReadyState
  transmitted :: "OutboundFrame list"

record WebSocketState =
  ws :: "nat option"
  connectionStatus :: ConnectionStatus
  reconnectAttempts :: nat

record Browser =
  wsStore :: WebSocketState
  sockets :: "WebSocket list"
  timers :: "(nat \<times> string) list"

definition initialBrowser :: Browser where
  "initialBrowser =
     \<lparr>wsStore = \<lparr>ws = None, connectionStatus = Disconnected, reconnectAttempts = 0\<rparr>,
      sockets = [], timers = []\<rparr>"

text \<open>
  \<open>WebSocket.close()\<close>: a socket that is connecting or open starts closing, its close
  event comes later; on a closing or closed socket the call does nothing.
\<close>

definition socket_close :: "nat \<Rightarrow> WebSocket list \<Rightarrow> WebSocket list" where
  "socket_close k ss =
     (if k < length ss \<and> (readyState (ss ! k) = CONNECTING \<or> readyState (ss ! k) = OPEN)
      then ss[k := (ss ! k)\<lparr>readyState := CLOSING\<rparr>]
      else ss)"

text \<open>
  \<open>WebSocket.send()\<close>: throws on a socket that is still connecting, transmits on an open
  one, and discards the data on a closing or closed one.
\<close>

definition socket_send :: "nat \<Rightarrow> OutboundFrame \<Rightarrow> WebSocket list \<Rightarrow> js_error + WebSocket list" where
  "socket_send k d ss =
     (if k < length ss then
        (case readyState (ss ! k) of
           CONNECTING \<Rightarrow> Inl InvalidStateError
         | OPEN \<Rightarrow> Inr (ss[k := (ss ! k)\<lparr>transmitted := transmitted (ss ! k) @ [d]\<rparr>])
         | CLOSING \<Rightarrow> Inr ss
         | CLOSED \<Rightarrow> Inr ss)
      else Inr ss)"

definition disconnect :: "Browser \<Rightarrow> Browser" where
  "disconnect b =
     (case ws (wsStore b) of
        None \<Rightarrow> b
      | Some k \<Rightarrow>
          b\<lparr>sockets := socket_close k (sockets b),
            wsStore := (wsStore b)\<lparr>ws := None, connectionStatus := Disconnected\<rparr>\<rparr>)"

definition connect :: "string \<Rightarrow> Browser \<Rightarrow> Browser" where
  "connect pipelineId b =
     (let b1 = (case ws (wsStore b) of None \<Rightarrow> b | Some k \<Rightarrow> disconnect b);
          b2 = b1\<lparr>wsStore := (wsStore b1)\<lparr>connectionStatus := Connecting\<rparr>\<rparr>
      in b2\<lparr>sockets := sockets b2 @
               [\<lparr>ws_pipeline = pipelineId, readyState = CONNECTING, transmitted = []\<rparr>]\<rparr>)"

definition onopen :: "nat \<Rightarrow> Browser \<Rightarrow> Browser" where
  "onopen k b =
     b\<lparr>wsStore := (wsStore b)\<lparr>ws := Some k, connectionStatus := Connected, reconnectAttempts := 0\<rparr>\<rparr>"

text \<open>\<open>Math.min(1000 * Math.pow(2, reconnectAttempts), 10000)\<close>, in milliseconds.\<close>

definition reconnect_delay :: "nat \<Rightarrow> nat" where
  "reconnect_delay n = min (1000 * 2 ^ n) 10000"

definition onclose :: "nat \<Rightarrow> Browser \<Rightarrow> Browser" where
  "onclose k b =
     (let b1 = b\<lparr>wsStore := (wsStore b)\<lparr>connectionStatus := Disconnected\<rparr>\<rparr>;
          n = reconnectAttempts (wsStore b1)
      in if n < 5
         then b1\<lparr>timers := timers b1 @ [(reconnect_delay n, ws_pipeline (sockets b ! k))]\<rparr>
         else b1)"

text \<open>The callback handed to \<open>setTimeout\<close> by \<open>onclose\<close>.\<close>

definition reconnect_callback :: "string \<Rightarrow> Browser \<Rightarrow> Browser" where
  "reconnect_callback pipelineId b =
     connect pipelineId
       (b\<lparr>wsStore := (wsStore b)\<lparr>reconnectAttempts := reconnectAttempts (wsStore b) + 1\<rparr>\<rparr>)"

definition send :: "OutboundFrame \<Rightarrow> Browser \<Rightarrow> js_error + Browser" where
  "send d b =
     (case ws (wsStore b) of
        None \<Rightarrow> Inr b
      | Some k \<Rightarrow>
          if connectionStatus (wsStore b) = Connected
          then (case socket_send k d (sockets b) of
                  Inl e \<Rightarrow> Inl e
                | Inr ss \<Rightarrow> Inr (b\<lparr>sockets := ss\<rparr>))
          else Inr b)"

subsection \<open>What the browser and the caller can do\<close>

text \<open>
  The network opens a connecting socket or closes a socket that is not closed yet, and the
  event handler of the socket runs; a pending timer elapses and its callback runs; the
  application calls \<open>connect\<close>, \<open>disconnect\<close> or \<open>send\<close>.
\<close>

definition socket_opens :: "nat \<Rightarrow> Browser \<Rightarrow> Browser" where
  "socket_opens k b =
     (if k < length (sockets b) \<and> readyState (sockets b ! k) = CONNECTING
      then onopen k (b\<lparr>sockets := (sockets b)[k := (sockets b ! k)\<lparr>readyState := OPEN\<rparr>]\<rparr>)
      else b)"

definition socket_closes :: "nat \<Rightarrow> Browser \<Rightarrow> Browser" where
  "socket_closes k b =
     (if k < length (sockets b) \<and> readyState (sockets b ! k) \<noteq> CLOSED
      then onclose k (b\<lparr>sockets := (sockets b)[k := (sockets b ! k)\<lparr>readyState := CLOSED\<rparr>]\<rparr>)
      else b)"

definition timer_fires :: "nat \<Rightarrow> Browser \<Rightarrow> Browser" where
  "timer_fires i b =
     (if i < length (timers b)
      then reconnect_callback (snd (timers b ! i))
             (b\<lparr>timers := take i (timers b) @ drop (Suc i) (timers b)\<rparr>)
      else b)"

datatype Event =
    CallConnect string | CallDisconnect | CallSend OutboundFrame
  | SocketOpens nat | SocketCloses nat | TimerFires nat

fun step :: "Event \<Rightarrow> Browser \<Rightarrow> Browser" where
  "step (CallConnect p) b = connect p b"
| "step CallDisconnect b = disconnect b"
| "step (CallSend d) b = (case send d b of Inl e \<Rightarrow> b | Inr b' \<Rightarrow> b')"
| "step (SocketOpens k) b = socket_opens k b"
| "step (SocketCloses k) b = socket_closes k b"
| "step (TimerFires i) b = timer_fires i b"

fun run :: "Event list \<Rightarrow> Browser \<Rightarrow> Browser" where
  "run [] b = b"
| "run (e # es) b = run es (step e b)"

text \<open>While the status is \<open>connected\<close>, the store holds an open socket.\<close>

definition holds_open_socket :: "Browser \<Rightarrow> bool" where
  "holds_open_socket b =
     (case ws (wsStore b) of
        None \<Rightarrow> False
      | Some k \<Rightarrow> k < length (sockets b) \<and> readyState (sockets b ! k) = OPEN)"

definition connected_inv :: "Browser \<Rightarrow> bool" where
  "connected_inv b = (if connectionStatus (wsStore b) = Connected then holds_open_socket b else True)"

text \<open>
  A run of failed attempts: the newest socket closes, and the timer that the close has
  scheduled, if any, elapses. The delays of the timers are collected.
\<close>

fun failing_run :: "nat \<Rightarrow> Browser \<Rightarrow> nat list \<times> Browser" where
  "failing_run 0 b = ([], b)"
| "failing_run (Suc n) b =
     (let b1 = socket_closes (length (sockets b) - 1) b in
      case timers b1 of
        [] \<Rightarrow> ([], b1)
      | t # ts \<Rightarrow> (case failing_run n (timer_fires 0 b1) of (ds, b2) \<Rightarrow> (fst t # ds, b2)))"

text \<open>
  The state between two failed attempts: a socket has just been created and is connecting,
  no timer is pending, the store holds no socket, and \<open>a\<close> attempts have been counted.
\<close>

definition retry_ready :: "nat \<Rightarrow> Browser \<Rightarrow> bool" where
  "retry_ready a b =
     (timers b = [] \<and> sockets b \<noteq> [] \<and> readyState (last (sockets b)) = CONNECTING
      \<and> ws (wsStore b) = None \<and> reconnectAttempts (wsStore b) = a)"

text \<open>The state in which the store has given up: nothing is scheduled any more.\<close>

definition gave_up :: "Browser \<Rightarrow> bool" where
  "gave_up b =
     (timers b = [] \<and> connectionStatus (wsStore b) = Disconnected
      \<and> reconnectAttempts (wsStore b) = 5 \<and> readyState (last (sockets b)) = CLOSED)"

section \<open>Message dispatch (handleWebSocketMessage, the onmessage handler)\<close>

subsection \<open>The pipeline store and the chat store, as far as the dispatcher reaches them\<close>

datatype PipelineStatus = Idle | Running | Completed | Failed

record Pipeline =
  pl_id :: string
  pl_name :: string
  pl_description :: "string option"
  pl_urls :: "string list"
  pl_schema :: "(string \<times> string) list"
  pl_code :: string
  pl_generated_code :: "string option"
  pl_status :: PipelineStatus
  pl_created_at :: string
  pl_updated_at :: string
  pl_results :: "string list option"
  pl_results_count :: "nat option"
  pl_last_run :: "string option"

record PipelineState =
  pipelines :: "Pipeline list"
  currentPipeline :: "Pipeline option"
  executionResults :: "string list"
  isLoading :: bool

text \<open>
  \<open>updatePipeline\<close> issues its PUT when it is called and touches the store only when the
  call has settled; the dispatcher does not await it.
\<close>

definition updatePipeline_start :: "string \<Rightarrow> PipelineUpdate \<Rightarrow> ApiRequest" where
  "updatePipeline_start pid d = ApiPut (''/pipelines/'' @ pid) (PipelineBody d)"

definition updatePipeline_settle :: "string \<Rightarrow> Pipeline http_result \<Rightarrow> PipelineState \<Rightarrow> PipelineState" where
  "updatePipeline_settle pid r s =
     (case r of
        HttpSuccess updatedPipeline \<Rightarrow>
          s\<lparr>pipelines := map (\<lambda>p. if pl_id p = pid then updatedPipeline else p) (pipelines s),
            currentPipeline :=
              (case currentPipeline s of
                 None \<Rightarrow> None
               | Some c \<Rightarrow> if pl_id c = pid then Some updatedPipeline else Some c)\<rparr>
      | HttpFailure d \<Rightarrow> s)"

datatype Role = User | Assistant | System

record ChatMessage =
  msg_id :: string
  msg_role :: Role
  msg_content :: string
  msg_timestamp :: string
  msg_tools_used :: "string list option"

record ChatState =
  messages :: "ChatMessage list"
  chat_isLoading :: bool
  chat_error :: "string option"

definition addMessage :: "ChatMessage \<Rightarrow> ChatState \<Rightarrow> ChatState" where
  "addMessage m s = s\<lparr>messages := messages s @ [m]\<rparr>"

record Stores =
  pipelineStore :: PipelineState
  workflowStore :: WorkflowStore
  chatStore :: ChatState

subsection \<open>Frames\<close>

text \<open>
  A parsed frame is any JSON value. \<open>null\<close> cannot be destructured; a number, a string, a
  boolean or an array can, and has no \<open>type\<close>. Of an object the dispatcher reads the fields
  below; a field that is absent, \<open>null\<close> or not of the shape read is \<open>None\<close>, and \<open>f_type\<close>
  is \<open>None\<close> when \<open>type\<close> is not a string (the \<open>switch\<close> compares with \<open>===\<close>).
\<close>

record Frame =
  f_type :: "string option"
  f_state :: "PipelineUpdate option"
  f_workflow :: "WorkflowState option"
  f_approval :: "ApprovalRequest option"
  f_message :: "string option"
  f_response :: "string option"
  f_workflow_state :: "WorkflowState option"

datatype JsValue = JsNull | JsOther | JsObject Frame

datatype EventDetail = NoDetail | ApprovalDetail ApprovalRequest | FrameDetail Frame

datatype Effect =
    ConsoleLog string
  | ConsoleError string
  | DispatchEvent string EventDetail
  | IssueRequest ApiRequest

record Clock =
  now_millis :: string
  now_iso :: string

definition emptyFrame :: Frame where
  "emptyFrame =
     \<lparr>f_type = None, f_state = None, f_workflow = None, f_approval = None,
      f_message = None, f_response = None, f_workflow_state = None\<rparr>"

definition known_types :: "string list" where
  "known_types =
     [''state_update'', ''workflow_update'', ''workflow_state'', ''approval_request'',
      ''execution_update'', ''error'', ''response'']"

definition truthy :: "string option \<Rightarrow> bool" where
  "truthy x = (case x of None \<Rightarrow> False | Some t \<Rightarrow> t \<noteq> [])"

definition on_state_update :: "Frame \<Rightarrow> Stores \<Rightarrow> Stores \<times> Effect list" where
  "on_state_update fr st =
     (case f_state fr of
        None \<Rightarrow> (st, [])
      | Some d \<Rightarrow>
          (case currentPipeline (pipelineStore st) of
             None \<Rightarrow> (st, [])
           | Some cp \<Rightarrow> (st, [IssueRequest (updatePipeline_start (pl_id cp) d)])))"

definition on_workflow_update :: "Frame \<Rightarrow> Stores \<Rightarrow> Stores \<times> Effect list" where
  "on_workflow_update fr st =
     (case f_workflow fr of
        None \<Rightarrow> (st, [])
      | Some w \<Rightarrow> (st\<lparr>workflowStore := setWorkflow w (workflowStore st)\<rparr>, []))"

definition on_workflow_state :: "Frame \<Rightarrow> Stores \<Rightarrow> Stores \<times> Effect list" where
  "on_workflow_state fr st =
     ((case f_workflow fr of
         None \<Rightarrow> st
       | Some w \<Rightarrow> st\<lparr>workflowStore := setWorkflow w (workflowStore st)\<rparr>),
      [DispatchEvent ''workflow-state-received'' NoDetail])"

definition on_approval_request :: "Frame \<Rightarrow> Stores \<Rightarrow> Stores \<times> Effect list" where
  "on_approval_request fr st =
     (case f_approval fr of
        None \<Rightarrow> (st, [])
      | Some a \<Rightarrow> (st, [DispatchEvent ''approval-request'' (ApprovalDetail a)]))"

definition on_response :: "Clock \<Rightarrow> Frame \<Rightarrow> Stores \<Rightarrow> Stores \<times> Effect list" where
  "on_response clk fr st =
     (let st1 =
            (case f_response fr of
               None \<Rightarrow> st
             | Some content \<Rightarrow>
                 if truthy (Some content)
                 then st\<lparr>chatStore :=
                          addMessage
                            \<lparr>msg_id = now_millis clk, msg_role = Assistant,
                             msg_content = content, msg_timestamp = now_iso clk,
                             msg_tools_used = None\<rparr>
                            (chatStore st)\<rparr>
                 else st)
      in (case f_workflow_state fr of
            None \<Rightarrow> (st1, [])
          | Some w \<Rightarrow> (st1\<lparr>workflowStore := setWorkflow w (workflowStore st1)\<rparr>, [])))"

definition dispatch :: "Clock \<Rightarrow> Frame \<Rightarrow> Stores \<Rightarrow> Stores \<times> Effect list" where
  "dispatch clk fr st =
     (if f_type fr = Some ''state_update'' then on_state_update fr st
      else if f_type fr = Some ''workflow_update'' then on_workflow_update fr st
      else if f_type fr = Some ''workflow_state'' then on_workflow_state fr st
      else if f_type fr = Some ''approval_request'' then on_approval_request fr st
      else if f_type fr = Some ''execution_update'' then (st, [ConsoleLog ''Execution update:''])
      else if f_type fr = Some ''error''
        then (st, [ConsoleError ''WebSocket error:'', DispatchEvent ''websocket-error'' (FrameDetail fr)])
      else if f_type fr = Some ''response'' then on_response clk fr st
      else (st, [ConsoleLog ''Unknown WebSocket message type:'']))"

definition handleWebSocketMessage :: "Clock \<Rightarrow> JsValue \<Rightarrow> Stores \<Rightarrow> js_error + Stores \<times> Effect list" where
  "handleWebSocketMessage clk v st =
     (case v of
        JsNull \<Rightarrow> Inl TypeError
      | JsOther \<Rightarrow> Inr (st, [ConsoleLog ''Unknown WebSocket message type:''])
      | JsObject fr \<Rightarrow> Inr (dispatch clk fr st))"

text \<open>
  The \<open>onmessage\<close> handler. \<open>JSON.parse\<close> is the platform's, taken as a parameter: \<open>None\<close>
  is the \<open>SyntaxError\<close>. The \<open>catch\<close> covers the parse and the whole dispatch.
\<close>

definition onmessage ::
  "(string \<Rightarrow> JsValue option) \<Rightarrow> Clock \<Rightarrow> string \<Rightarrow> Stores \<Rightarrow> js_error + Stores \<times> Effect list" where
  "onmessage JSON_parse clk raw st =
     (case JSON_parse raw of
        None \<Rightarrow> Inr (st, [ConsoleError ''Failed to parse WebSocket message:''])
      | Some v \<Rightarrow>
          (case handleWebSocketMessage clk v st of
             Inl e \<Rightarrow> Inr (st, [ConsoleError ''Failed to parse WebSocket message:''])
           | Inr r \<Rightarrow> Inr r))"

definition frame_type :: "JsValue \<Rightarrow> string option" where
  "frame_type v = (case v of JsObject fr \<Rightarrow> f_type fr | JsNull \<Rightarrow> None | JsOther \<Rightarrow> None)"

definition recognized :: "JsValue \<Rightarrow> bool" where
  "recognized v = (case frame_type v of None \<Rightarrow> False | Some t \<Rightarrow> t \<in> set known_types)"

fun is_console :: "Effect \<Rightarrow> bool" where
  "is_console (ConsoleLog m) = True"
| "is_console (ConsoleError m) = True"
| "is_console (DispatchEvent n d) = False"
| "is_console (IssueRequest r) = False"

definition dropped :: "Stores \<Rightarrow> js_error + Stores \<times> Effect list \<Rightarrow> bool" where
  "dropped st r = (case r of Inl e \<Rightarrow> False | Inr (st', effs) \<Rightarrow> st' = st \<and> list_all is_console effs)"

definition initialStores :: Stores where
  "initialStores =
     \<lparr>pipelineStore = \<lparr>pipelines = [], currentPipeline = None, executionResults = [], isLoading = False\<rparr>,
      workflowStore = initialWorkflowStore,
      chatStore = \<lparr>messages = [], chat_isLoading = False, chat_error = None\<rparr>\<rparr>"

definition sample_clock :: Clock where
  "sample_clock = \<lparr>now_millis = ''1700000000000'', now_iso = ''2023-11-14T22:13:20.000Z''\<rparr>"

definition sample_parse :: "string \<Rightarrow> JsValue option" where
  "sample_parse raw =
     (if raw = ''null'' then Some JsNull
      else if raw = ''42'' then Some JsOther
      else if raw = ''{\"type\":\"ping\"}'' then Some (JsObject (emptyFrame\<lparr>f_type := Some ''ping''\<rparr>))
      else if raw = ''{}'' then Some (JsObject emptyFrame)
      else None)"

section \<open>Phase status shown by the sidebar (components/Workflow/WorkflowSidebar.tsx)\<close>

text \<open>
  The sidebar keeps the last workflow it was sent and derives the status of each entry of
  its phase list from it. The phase of that snapshot is the string the server sent.
\<close>

datatype PhaseStatus = StatusPending | StatusActive | StatusCompleted | StatusError

record SidebarPhase =
  sp_id :: string
  sp_label :: string
  sp_description :: string
  sp_status :: PhaseStatus

record SidebarWorkflowState =
  sb_pipeline_id :: string
  sb_phase :: string
  sb_generated_code :: string
  sb_updated_at :: string

definition phases :: "SidebarPhase list" where
  "phases =
     [\<lparr>sp_id = ''initial'', sp_label = ''Start'', sp_description = ''Initialize pipeline'',
       sp_status = StatusPending\<rparr>,
      \<lparr>sp_id = ''url_collection'', sp_label = ''Collect URLs'',
       sp_description = ''Find or add URLs to scrape'', sp_status = StatusPending\<rparr>,
      \<lparr>sp_id = ''url_validation'', sp_label = ''Validate URLs'',
       sp_description = ''Check URL relevance'', sp_status = StatusPending\<rparr>,
      \<lparr>sp_id = ''schema_definition'', sp_label = ''Define Schema'',
       sp_description = ''Specify data to extract'', sp_status = StatusPending\<rparr>,
      \<lparr>sp_id = ''schema_validation'', sp_label = ''Validate Schema'',
       sp_description = ''Verify schema completeness'', sp_status = StatusPending\<rparr>,
      \<lparr>sp_id = ''code_generation'', sp_label = ''Generate Code'',
       sp_description = ''Create scraping script'', sp_status = StatusPending\<rparr>,
      \<lparr>sp_id = ''ready_to_execute'', sp_label = ''Ready'',
       sp_description = ''Review and approve'', sp_status = StatusPending\<rparr>,
      \<lparr>sp_id = ''executing'', sp_label = ''Execute'',
       sp_description = ''Run the pipeline'', sp_status = StatusPending\<rparr>,
      \<lparr>sp_id = ''completed'', sp_label = ''Complete'',
       sp_description = ''Pipeline finished'', sp_status = StatusPending\<rparr>]"

text \<open>\<open>Array.prototype.indexOf\<close>: the first position of the element, \<open>-1\<close> when absent.\<close>

fun indexOf :: "'a list \<Rightarrow> 'a \<Rightarrow> int" where
  "indexOf [] x = - 1"
| "indexOf (y # ys) x =
     (if y = x then 0 else (let r = indexOf ys x in if r < 0 then - 1 else r + 1))"

definition phaseOrder :: "string list" where
  "phaseOrder = map sp_id phases"

definition getPhaseStatus :: "SidebarWorkflowState option \<Rightarrow> string \<Rightarrow> PhaseStatus" where
  "getPhaseStatus workflowState phaseId =
     (case workflowState of
        None \<Rightarrow> StatusPending
      | Some w \<Rightarrow>
          (let currentIndex = indexOf phaseOrder (sb_phase w);
               targetIndex = indexOf phaseOrder phaseId
           in if sb_phase w = ''error'' then StatusError
              else if targetIndex < currentIndex then StatusCompleted
              else if targetIndex = currentIndex then StatusActive
              else StatusPending))"

definition sidebar_at :: "string \<Rightarrow> SidebarWorkflowState" where
  "sidebar_at p =
     \<lparr>sb_pipeline_id = ''p1'', sb_phase = p, sb_generated_code = [], sb_updated_at = ''t0''\<rparr>"

section \<open>Approval resolution\<close>

subsection \<open>The coordinator's resolve\<close>

text \<open>
  The approval coordinator runs in the backend of the repository, behind the push frame
  \<open>{ type: "approval", ... }\<close> and the endpoint \<open>/workflow/{id}/approve\<close>; only its callers
  are among the sources.
\<close>

text \<open>
  Modelled from the spec: the terminal status a decision records (the backend's \<open>resolve\<close>
  is missing): \<open>approved\<close> or \<open>rejected\<close>.
\<close>

definition terminal_status :: "bool \<Rightarrow> ApprovalStatus" where
  "terminal_status approved = (if approved then Approved else Rejected)"

text \<open>
  Modelled from the spec: the outcome already recorded for an id (the backend's \<open>resolve\<close>
  is missing), read from the approval history.
\<close>

definition recorded_status :: "string \<Rightarrow> WorkflowState \<Rightarrow> ApprovalStatus option" where
  "recorded_status aid w = map_option ap_status (find (\<lambda>a. ap_id a = aid) (approval_history w))"

text \<open>
  Modelled from the spec: whether an approval has expired when the coordinator looks at
  it (the backend's clock and its comparison of timestamps are missing). The clock is the
  predicate \<open>elapsed\<close>: it holds of a timestamp that lies in the past at the time of the
  call. An approval without \<open>expires_at\<close> never expires.
\<close>

definition is_expired :: "(string \<Rightarrow> bool) \<Rightarrow> ApprovalRequest \<Rightarrow> bool" where
  "is_expired elapsed a = (case ap_expires_at a of None \<Rightarrow> False | Some e \<Rightarrow> elapsed e)"

text \<open>
  Modelled from the spec: \<open>resolve(approvalId, approved, reason?)\<close> of the approval
  coordinator, which is missing from the sources. It is the only way an approval leaves the
  pending set. A call for an id that is not pending is a no-op that returns the outcome
  already recorded. A call for a pending approval whose expiry has elapsed marks it
  \<open>expired\<close> and moves it to the history: the decision of a late call is not recorded. A
  call for a pending approval that has not expired moves it to the history with the
  decision as its terminal status. Each move bumps the version.
\<close>

definition resolve ::
  "(string \<Rightarrow> bool) \<Rightarrow> string \<Rightarrow> bool \<Rightarrow> WorkflowState \<Rightarrow> WorkflowState \<times> ApprovalStatus option" where
  "resolve elapsed aid approved w =
     (case find (\<lambda>a. ap_id a = aid) (pending_approvals w) of
        None \<Rightarrow> (w, recorded_status aid w)
      | Some a \<Rightarrow>
          (let outcome = (if is_expired elapsed a then Expired else terminal_status approved)
           in (w\<lparr>pending_approvals := filter (\<lambda>a. ap_id a \<noteq> aid) (pending_approvals w),
                 approval_history := approval_history w @ [a\<lparr>ap_status := outcome\<rparr>],
                 version := version w + 1\<rparr>,
               Some outcome)))"

datatype Channel = PushChannel | RequestResponse

text \<open>
  One resolution as it reaches the backend: the channel it came over, the decision it
  carries, and the clock at the time it is handled.
\<close>

record Resolution =
  via :: Channel
  decision :: bool
  clock_at :: "string \<Rightarrow> bool"

text \<open>
  Modelled from the spec: the backend's handling of a resolution that arrives over either
  channel, which is missing from the sources. Both channels end in the same \<open>resolve\<close>,
  keyed by the approval id and not by the channel.
\<close>

definition resolve_via :: "string \<Rightarrow> Resolution \<Rightarrow> WorkflowState \<Rightarrow> WorkflowState" where
  "resolve_via aid r w =
     (case via r of
        PushChannel \<Rightarrow> fst (resolve (clock_at r) aid (decision r) w)
      | RequestResponse \<Rightarrow> fst (resolve (clock_at r) aid (decision r) w))"

fun resolve_all :: "string \<Rightarrow> Resolution list \<Rightarrow> WorkflowState \<Rightarrow> WorkflowState" where
  "resolve_all aid [] w = w"
| "resolve_all aid (r # rs) w = resolve_all aid rs (resolve_via aid r w)"

definition history_entries :: "string \<Rightarrow> WorkflowState \<Rightarrow> ApprovalRequest list" where
  "history_entries aid w = filter (\<lambda>a. ap_id a = aid) (approval_history w)"

text \<open>
  Modelled from the spec: the backend's approve endpoint, which is missing from the sources.
  The request/response call resolves the id on the server's snapshot, at the server's clock,
  and returns the full updated snapshot.
\<close>

definition approve_endpoint :: "(string \<Rightarrow> bool) \<Rightarrow> WorkflowState \<Rightarrow> workflow_api" where
  "approve_endpoint elapsed srv rq =
     (case rq of
        ApiPost path (ApproveBody aid approved reason) \<Rightarrow>
          HttpSuccess (Some (fst (resolve elapsed aid approved srv)))
      | _ \<Rightarrow> HttpFailure None)"

subsection \<open>The two submissions of the approval dialog (components/Workflow/ApprovalManager.tsx)\<close>

text \<open>
  \<open>handleApprove\<close> and \<open>handleReject\<close> send the decision over the socket and then post it.
  The component's own state is the approval on display.
\<close>

record ApprovalManagerView =
  am_browser :: Browser
  am_workflow :: WorkflowStore
  currentApproval :: "ApprovalRequest option"

definition handleApprove ::
  "workflow_api \<Rightarrow> string \<Rightarrow> string option \<Rightarrow> ApprovalManagerView \<Rightarrow> js_error + ApprovalManagerView \<times> ApiRequest list" where
  "handleApprove api approvalId reason v =
     (case send (ApprovalFrame approvalId True reason) (am_browser v) of
        Inl e \<Rightarrow> Inl e
      | Inr b \<Rightarrow>
          (case approveAction api approvalId True reason (am_workflow v) of
             (s, rqs) \<Rightarrow> Inr (v\<lparr>am_browser := b, am_workflow := s, currentApproval := None\<rparr>, rqs)))"

definition handleReject ::
  "workflow_api \<Rightarrow> string \<Rightarrow> string option \<Rightarrow> ApprovalManagerView \<Rightarrow> js_error + ApprovalManagerView \<times> ApiRequest list" where
  "handleReject api approvalId reason v =
     (case send (ApprovalFrame approvalId False reason) (am_browser v) of
        Inl e \<Rightarrow> Inl e
      | Inr b \<Rightarrow>
          (case approveAction api approvalId False reason (am_workflow v) of
             (s, rqs) \<Rightarrow> Inr (v\<lparr>am_browser := b, am_workflow := s, currentApproval := None\<rparr>, rqs)))"

definition sample_approval :: "string \<Rightarrow> ApprovalRequest" where
  "sample_approval aid =
     \<lparr>ap_id = aid, ap_phase = READY_TO_EXECUTE, ap_action = ''execute_pipeline'', ap_data = [],
      ap_created_at = ''t0'', ap_expires_at = None, ap_status = Pending\<rparr>"

definition awaiting_A1 :: WorkflowState where
  "awaiting_A1 = (sample_workflow 5 READY_TO_EXECUTE)\<lparr>pending_approvals := [sample_approval ''A1'']\<rparr>"

text \<open>
  A second approval that expires at the start of 2020, and two clocks: one at which no
  timestamp has elapsed yet, one at which that expiry has.
\<close>

definition awaiting_A2 :: WorkflowState where
  "awaiting_A2 =
     (sample_workflow 5 READY_TO_EXECUTE)
       \<lparr>pending_approvals := [(sample_approval ''A2'')\<lparr>ap_expires_at := Some ''2020-01-01T00:00:00Z''\<rparr>]\<rparr>"

definition nothing_elapsed :: "string \<Rightarrow> bool" where
  "nothing_elapsed e = False"

definition after_2020 :: "string \<Rightarrow> bool" where
  "after_2020 e = (e = ''2020-01-01T00:00:00Z'')"

section \<open>Properties of the workflow store\<close>

lemma detail_or_nonempty: "fallback \<noteq> [] \<Longrightarrow> detail_or d fallback \<noteq> []"
  by (simp add: detail_or_def split: option.splits)

text \<open>
  C1, as stated, fails: the store holds version 5 and is handed a workflow of version 3,
  by \<open>setWorkflow\<close> (the push frames end there) and by the result of a request/response
  call; in both cases the held snapshot is replaced.
\<close>

theorem stale_update_replaces_snapshot:
  "version (sample_workflow 3 URL_COLLECTION) \<le> version (sample_workflow 5 SCHEMA_DEFINITION)
   \<and> currentWorkflow (setWorkflow (sample_workflow 3 URL_COLLECTION) (sample_store 5 SCHEMA_DEFINITION))
       \<noteq> currentWorkflow (sample_store 5 SCHEMA_DEFINITION)
   \<and> currentWorkflow (transitionToPhase_settle (HttpSuccess (Some (sample_workflow 3 URL_COLLECTION)))
         (sample_store 5 SCHEMA_DEFINITION))
       \<noteq> currentWorkflow (sample_store 5 SCHEMA_DEFINITION)"
  by (simp add: sample_workflow_def sample_store_def setWorkflow_def transitionToPhase_settle_def
      initialWorkflowStore_def)

text \<open>
  C1, amended: an inbound update that carries a workflow is installed as the snapshot
  whatever its version is, since the client compares no versions. This holds for
  \<open>setWorkflow\<close>, for the frames \<open>workflow_update\<close>, \<open>workflow_state\<close> and \<open>response\<close>, and
  for the result of every request/response call. \<open>setWorkflow\<close> leaves the store as it was
  only when the update's workflow, pending approvals and transitions are the ones held.
\<close>

theorem update_installed_whatever_version:
  "currentWorkflow (setWorkflow u s) = Some u
   \<and> (setWorkflow u s = s) =
       (currentWorkflow s = Some u \<and> pendingApprovals s = pending_approvals u
        \<and> workflowHistory s = phase_transitions u)
   \<and> fst (dispatch clk (fr\<lparr>f_type := Some ''workflow_update'', f_workflow := Some u\<rparr>) st)
       = st\<lparr>workflowStore := setWorkflow u (workflowStore st)\<rparr>
   \<and> fst (dispatch clk (fr\<lparr>f_type := Some ''workflow_state'', f_workflow := Some u\<rparr>) st)
       = st\<lparr>workflowStore := setWorkflow u (workflowStore st)\<rparr>
   \<and> currentWorkflow (workflowStore
         (fst (dispatch clk (fr\<lparr>f_type := Some ''response'', f_workflow_state := Some u\<rparr>) st))) = Some u
   \<and> currentWorkflow (updateURLs_settle (HttpSuccess (Some u)) s) = Some u
   \<and> currentWorkflow (updateSchema_settle (HttpSuccess (Some u)) s) = Some u
   \<and> currentWorkflow (approveAction_settle (HttpSuccess (Some u)) s) = Some u
   \<and> currentWorkflow (transitionToPhase_settle (HttpSuccess (Some u)) s) = Some u
   \<and> currentWorkflow (fetchWorkflow_settle (HttpSuccess (Some u)) s) = Some u"
proof -
  have a: "(setWorkflow u s = s) =
       (currentWorkflow s = Some u \<and> pendingApprovals s = pending_approvals u
        \<and> workflowHistory s = phase_transitions u)"
    by (cases s) (auto simp: setWorkflow_def)
  have b: "fst (dispatch clk (fr\<lparr>f_type := Some ''workflow_update'', f_workflow := Some u\<rparr>) st)
       = st\<lparr>workflowStore := setWorkflow u (workflowStore st)\<rparr>"
    by (simp add: dispatch_def on_workflow_update_def)
  have c: "fst (dispatch clk (fr\<lparr>f_type := Some ''workflow_state'', f_workflow := Some u\<rparr>) st)
       = st\<lparr>workflowStore := setWorkflow u (workflowStore st)\<rparr>"
    by (simp add: dispatch_def on_workflow_state_def)
  have d: "currentWorkflow (workflowStore
         (fst (dispatch clk (fr\<lparr>f_type := Some ''response'', f_workflow_state := Some u\<rparr>) st))) = Some u"
    by (simp add: dispatch_def on_response_def setWorkflow_def Let_def)
  show ?thesis
    using a b c d
    by (simp add: setWorkflow_def updateURLs_settle_def updateSchema_settle_def
        approveAction_settle_def transitionToPhase_settle_def fetchWorkflow_settle_def)
qed



text \<open>
  C6: when the transition request is rejected (the call returns an error), the snapshot
  held by the store is the one held before, phase included, and the store's \<open>error\<close> is set
  to a non-empty message: the detail the server gave, or \<open>Failed to transition phase\<close>.
  Whatever the store holds when a rejection settles, the snapshot is kept.
\<close>

theorem rejected_transition_keeps_snapshot:
  assumes "currentWorkflow s = Some w"
    and "api (ApiPost (''/workflow/'' @ pipeline_id w @ ''/transition'') (TransitionBody p reason)) = HttpFailure d"
  shows "currentWorkflow (fst (transitionToPhase api p reason s)) = Some w
    \<and> error (fst (transitionToPhase api p reason s)) = Some (detail_or d ''Failed to transition phase'')
    \<and> detail_or d ''Failed to transition phase'' \<noteq> []
    \<and> pendingApprovals (fst (transitionToPhase api p reason s)) = pendingApprovals s
    \<and> workflowHistory (fst (transitionToPhase api p reason s)) = workflowHistory s
    \<and> isProcessing (fst (transitionToPhase api p reason s)) = False
    \<and> currentWorkflow (transitionToPhase_settle (HttpFailure d) s') = currentWorkflow s'"
  using assms
  by (simp add: transitionToPhase_def transitionToPhase_start_def transitionToPhase_settle_def
      detail_or_nonempty)

theorem rejected_transition_keeps_snapshot_witness:
  "phase (the (currentWorkflow (fst (transitionToPhase reject_api EXECUTING None (sample_store 4 SCHEMA_DEFINITION)))))
     = SCHEMA_DEFINITION
   \<and> currentWorkflow (fst (transitionToPhase reject_api EXECUTING None (sample_store 4 SCHEMA_DEFINITION)))
     = Some (sample_workflow 4 SCHEMA_DEFINITION)
   \<and> error (fst (transitionToPhase reject_api EXECUTING None (sample_store 4 SCHEMA_DEFINITION)))
     = Some ''Invalid transition''"
  using rejected_transition_keeps_snapshot
    [of "sample_store 4 SCHEMA_DEFINITION" "sample_workflow 4 SCHEMA_DEFINITION" reject_api EXECUTING None
        "Some ''Invalid transition''"]
  by (simp add: sample_store_def setWorkflow_def reject_api_def detail_or_def sample_workflow_def)

text \<open>
  C10: with no workflow loaded, \<open>updateURLs\<close>, \<open>updateSchema\<close>, \<open>approveAction\<close> and
  \<open>transitionToPhase\<close> issue no request and return the store unchanged, \<open>isProcessing\<close> and
  \<open>error\<close> included.
\<close>

theorem no_workflow_no_request:
  assumes "currentWorkflow s = None"
  shows "updateURLs api us s = (s, []) \<and> updateSchema api flds s = (s, [])
    \<and> approveAction api a ok reason s = (s, []) \<and> transitionToPhase api p reason s = (s, [])"
  using assms
  by (simp add: updateURLs_def updateURLs_start_def updateSchema_def updateSchema_start_def
      approveAction_def approveAction_start_def transitionToPhase_def transitionToPhase_start_def)

theorem no_workflow_no_request_witness:
  "updateURLs reject_api [] initialWorkflowStore = (initialWorkflowStore, [])
   \<and> updateSchema reject_api [] initialWorkflowStore = (initialWorkflowStore, [])
   \<and> approveAction reject_api ''A1'' True None initialWorkflowStore = (initialWorkflowStore, [])
   \<and> transitionToPhase reject_api EXECUTING None initialWorkflowStore = (initialWorkflowStore, [])"
  using no_workflow_no_request [of initialWorkflowStore reject_api "[]" "[]" "''A1''" True None EXECUTING]
  by (simp add: initialWorkflowStore_def)

section \<open>Properties of the sidebar and of the dispatcher\<close>

lemma indexOf_nonneg_nth: "distinct xs \<Longrightarrow> i < length xs \<Longrightarrow> indexOf xs (xs ! i) = int i"
proof (induction xs arbitrary: i)
  case Nil
  then show ?case by simp
next
  case (Cons y ys)
  show ?case
  proof (cases i)
    case 0
    then show ?thesis by simp
  next
    case (Suc j)
    with Cons.prems have j: "j < length ys" and d: "distinct ys" and ny: "y \<notin> set ys"
      by auto
    from j ny have "y \<noteq> ys ! j" by (metis nth_mem)
    moreover have "indexOf ys (ys ! j) = int j" using Cons.IH [OF d j] .
    ultimately show ?thesis using Suc by (simp add: Let_def)
  qed
qed

lemma distinct_phaseOrder: "distinct phaseOrder"
  by (simp add: phaseOrder_def phases_def)

lemma length_phaseOrder: "length phaseOrder = length phases"
  by (simp add: phaseOrder_def)

lemma error_not_listed: "''error'' \<notin> set phaseOrder"
  by (simp add: phaseOrder_def phases_def)

text \<open>
  C7: the status the sidebar derives is a function of the snapshot it holds and the phase
  asked for. With the snapshot at the \<open>j\<close>-th entry of the phase list, the \<open>i\<close>-th entry is
  \<open>completed\<close> when \<open>i < j\<close>, \<open>active\<close> when \<open>i = j\<close> and \<open>pending\<close> when \<open>i > j\<close>; with the
  snapshot at \<open>error\<close> every phase is \<open>error\<close>; in general the comparison is between the
  \<open>indexOf\<close> positions of the two phase ids.
\<close>

theorem phase_status_by_index:
  "(i < length phases \<and> j < length phases \<and> sb_phase w = sp_id (phases ! j) \<longrightarrow>
      getPhaseStatus (Some w) (sp_id (phases ! i)) =
        (if i < j then StatusCompleted else if i = j then StatusActive else StatusPending))
   \<and> (sb_phase w = ''error'' \<longrightarrow> getPhaseStatus (Some w) phaseId = StatusError)
   \<and> (sb_phase w \<noteq> ''error'' \<longrightarrow>
        getPhaseStatus (Some w) phaseId =
          (if indexOf phaseOrder phaseId < indexOf phaseOrder (sb_phase w) then StatusCompleted
           else if indexOf phaseOrder phaseId = indexOf phaseOrder (sb_phase w) then StatusActive
           else StatusPending))"
proof -
  have listed: "getPhaseStatus (Some w) (sp_id (phases ! i)) =
        (if i < j then StatusCompleted else if i = j then StatusActive else StatusPending)"
    if i: "i < length phases" and j: "j < length phases" and at: "sb_phase w = sp_id (phases ! j)"
  proof -
    have pi: "sp_id (phases ! i) = phaseOrder ! i" and pj: "sp_id (phases ! j) = phaseOrder ! j"
      using i j by (simp_all add: phaseOrder_def)
    have ii: "indexOf phaseOrder (phaseOrder ! i) = int i"
      using indexOf_nonneg_nth [OF distinct_phaseOrder] i by (simp add: length_phaseOrder)
    have jj: "indexOf phaseOrder (phaseOrder ! j) = int j"
      using indexOf_nonneg_nth [OF distinct_phaseOrder] j by (simp add: length_phaseOrder)
    have "phaseOrder ! j \<in> set phaseOrder"
      using j by (simp add: length_phaseOrder)
    then have ne: "sb_phase w \<noteq> ''error''"
      using error_not_listed at pj by metis
    show ?thesis
      using ne ii jj by (simp add: getPhaseStatus_def Let_def at pi pj)
  qed
  show ?thesis
    using listed by (simp add: getPhaseStatus_def Let_def)
qed

theorem phase_status_by_index_witness:
  "getPhaseStatus (Some (sidebar_at ''schema_definition'')) ''url_validation'' = StatusCompleted
   \<and> getPhaseStatus (Some (sidebar_at ''schema_definition'')) ''schema_definition'' = StatusActive
   \<and> getPhaseStatus (Some (sidebar_at ''schema_definition'')) ''executing'' = StatusPending
   \<and> getPhaseStatus (Some (sidebar_at ''error'')) ''initial'' = StatusError"
  using phase_status_by_index [of 2 3 "sidebar_at ''schema_definition''" "[]", THEN conjunct1]
    phase_status_by_index [of 3 3 "sidebar_at ''schema_definition''" "[]", THEN conjunct1]
    phase_status_by_index [of 7 3 "sidebar_at ''schema_definition''" "[]", THEN conjunct1]
    phase_status_by_index [of 0 0 "sidebar_at ''error''" "''initial''", THEN conjunct2, THEN conjunct1]
  by (simp add: sidebar_at_def phases_def)

text \<open>
  C8: a frame that does not parse, or that parses to a value whose \<open>type\<close> is none of the
  seven the dispatcher knows (a value without a \<open>type\<close> and \<open>null\<close> included), leaves every
  store as it was; the only effects are console output, and the handler returns normally.
\<close>

theorem unparsable_or_unknown_frame_dropped:
  assumes "JSON_parse raw = None \<or> (\<exists>v. JSON_parse raw = Some v \<and> \<not> recognized v)"
  shows "dropped st (onmessage JSON_parse clk raw st)"
proof -
  have unk: "dropped st (onmessage JSON_parse clk raw st)"
    if p: "JSON_parse raw = Some v" and r: "\<not> recognized v" for v
  proof (cases v)
    case JsNull
    then show ?thesis using p by (simp add: onmessage_def handleWebSocketMessage_def dropped_def)
  next
    case JsOther
    then show ?thesis using p by (simp add: onmessage_def handleWebSocketMessage_def dropped_def)
  next
    case (JsObject fr)
    with r have "dispatch clk fr st = (st, [ConsoleLog ''Unknown WebSocket message type:''])"
      by (auto simp: recognized_def frame_type_def known_types_def dispatch_def split: option.splits)
    then show ?thesis
      using p JsObject by (simp add: onmessage_def handleWebSocketMessage_def dropped_def)
  qed
  from assms show ?thesis
  proof
    assume "JSON_parse raw = None"
    then show ?thesis by (simp add: onmessage_def dropped_def)
  next
    assume "\<exists>v. JSON_parse raw = Some v \<and> \<not> recognized v"
    then show ?thesis using unk by blast
  qed
qed

theorem unparsable_or_unknown_frame_dropped_witness:
  "dropped initialStores (onmessage sample_parse sample_clock ''not json'' initialStores)
   \<and> dropped initialStores (onmessage sample_parse sample_clock ''null'' initialStores)
   \<and> dropped initialStores (onmessage sample_parse sample_clock ''42'' initialStores)
   \<and> dropped initialStores (onmessage sample_parse sample_clock ''{\"type\":\"ping\"}'' initialStores)
   \<and> dropped initialStores (onmessage sample_parse sample_clock ''{}'' initialStores)"
proof -
  have a: "sample_parse ''not json'' = None" by (simp add: sample_parse_def)
  have b: "sample_parse ''null'' = Some JsNull \<and> \<not> recognized JsNull"
    by (simp add: sample_parse_def recognized_def frame_type_def)
  have c: "sample_parse ''42'' = Some JsOther \<and> \<not> recognized JsOther"
    by (simp add: sample_parse_def recognized_def frame_type_def)
  have d: "sample_parse ''{\"type\":\"ping\"}'' = Some (JsObject (emptyFrame\<lparr>f_type := Some ''ping''\<rparr>))
      \<and> \<not> recognized (JsObject (emptyFrame\<lparr>f_type := Some ''ping''\<rparr>))"
    by (simp add: sample_parse_def recognized_def frame_type_def known_types_def)
  have e: "sample_parse ''{}'' = Some (JsObject emptyFrame) \<and> \<not> recognized (JsObject emptyFrame)"
    by (simp add: sample_parse_def recognized_def frame_type_def emptyFrame_def)
  show ?thesis
    using unparsable_or_unknown_frame_dropped [of sample_parse "''not json''" initialStores sample_clock]
      unparsable_or_unknown_frame_dropped [of sample_parse "''null''" initialStores sample_clock]
      unparsable_or_unknown_frame_dropped [of sample_parse "''42''" initialStores sample_clock]
      unparsable_or_unknown_frame_dropped [of sample_parse "''{\"type\":\"ping\"}''" initialStores sample_clock]
      unparsable_or_unknown_frame_dropped [of sample_parse "''{}''" initialStores sample_clock]
      a b c d e
    by blast
qed

section \<open>Properties of the transport\<close>

lemma connected_inv_initial: "connected_inv initialBrowser"
  by (simp add: connected_inv_def initialBrowser_def)

lemma send_shape:
  "send d b = Inr b' \<Longrightarrow>
     wsStore b' = wsStore b \<and> timers b' = timers b \<and> length (sockets b') = length (sockets b)
     \<and> map readyState (sockets b') = map readyState (sockets b)"
  by (auto simp: send_def socket_send_def map_update list_update_same_conv
      split: option.splits if_splits ReadyState.splits sum.splits)

lemma connected_inv_send: "connected_inv b \<Longrightarrow> send d b = Inr b' \<Longrightarrow> connected_inv b'"
proof -
  assume inv: "connected_inv b" and s: "send d b = Inr b'"
  from send_shape [OF s] have st: "wsStore b' = wsStore b"
    and len: "length (sockets b') = length (sockets b)"
    and rs: "map readyState (sockets b') = map readyState (sockets b)" by auto
  have "readyState (sockets b' ! k) = readyState (sockets b ! k)" if "k < length (sockets b)" for k
    using rs that len by (metis nth_map)
  then show ?thesis
    using inv st len by (auto simp: connected_inv_def holds_open_socket_def split: option.splits)
qed

lemma connected_inv_step: "connected_inv b \<Longrightarrow> connected_inv (step e b)"
proof (cases e)
  case (CallConnect p)
  then show ?thesis by (simp add: connected_inv_def connect_def Let_def split: option.splits)
next
  case CallDisconnect
  assume "connected_inv b"
  then show ?thesis using CallDisconnect
    by (simp add: connected_inv_def disconnect_def split: option.splits)
next
  case (CallSend d)
  assume "connected_inv b"
  then show ?thesis using CallSend connected_inv_send [of b d]
    by (simp split: sum.splits)
next
  case (SocketOpens k)
  assume "connected_inv b"
  then show ?thesis using SocketOpens
    by (auto simp: socket_opens_def onopen_def connected_inv_def holds_open_socket_def
        split: if_splits)
next
  case (SocketCloses k)
  assume "connected_inv b"
  then show ?thesis using SocketCloses
    by (simp add: socket_closes_def onclose_def connected_inv_def Let_def)
next
  case (TimerFires i)
  assume "connected_inv b"
  then show ?thesis using TimerFires
    by (simp add: timer_fires_def reconnect_callback_def connected_inv_def connect_def Let_def
        split: option.splits)
qed

lemma connected_inv_run: "connected_inv b \<Longrightarrow> connected_inv (run es b)"
  by (induction es arbitrary: b) (simp_all add: connected_inv_step)

lemma send_open:
  assumes "connectionStatus (wsStore b) = Connected" and "holds_open_socket b"
  shows "\<exists>k. ws (wsStore b) = Some k
    \<and> send d b = Inr (b\<lparr>sockets := (sockets b)[k := (sockets b ! k)\<lparr>transmitted := transmitted (sockets b ! k) @ [d]\<rparr>]\<rparr>)"
  using assms by (auto simp: holds_open_socket_def send_def socket_send_def split: option.splits)

text \<open>
  C9: in every state whose status is not \<open>connected\<close>, \<open>send\<close> returns normally with the
  state unchanged: nothing is transmitted and nothing is queued; so whenever \<open>send\<close> changes
  anything, the status is \<open>connected\<close>. In every state the store can reach from its initial
  one, \<open>send\<close> never throws, and when the status is \<open>connected\<close> the socket held is open
  and the frame is appended to what that socket has transmitted.
\<close>

theorem send_only_when_connected:
  "(connectionStatus (wsStore b) \<noteq> Connected \<longrightarrow> send d b = Inr b)
   \<and> (send d b \<noteq> Inr b \<longrightarrow> connectionStatus (wsStore b) = Connected)
   \<and> (\<exists>b'. send d (run es initialBrowser) = Inr b'
        \<and> wsStore b' = wsStore (run es initialBrowser) \<and> timers b' = timers (run es initialBrowser)
        \<and> (connectionStatus (wsStore (run es initialBrowser)) \<noteq> Connected \<longrightarrow> b' = run es initialBrowser)
        \<and> (connectionStatus (wsStore (run es initialBrowser)) = Connected \<longrightarrow>
             (\<exists>k. ws (wsStore (run es initialBrowser)) = Some k
                \<and> k < length (sockets (run es initialBrowser))
                \<and> readyState (sockets (run es initialBrowser) ! k) = OPEN
                \<and> transmitted (sockets b' ! k) = transmitted (sockets (run es initialBrowser) ! k) @ [d])))"
proof -
  have drop: "connectionStatus (wsStore b) \<noteq> Connected \<Longrightarrow> send d b = Inr b" for b
    by (simp add: send_def split: option.splits)
  define r where "r = run es initialBrowser"
  have inv: "connected_inv r"
    unfolding r_def by (rule connected_inv_run [OF connected_inv_initial])
  have reach: "\<exists>b'. send d r = Inr b' \<and> wsStore b' = wsStore r \<and> timers b' = timers r
        \<and> (connectionStatus (wsStore r) \<noteq> Connected \<longrightarrow> b' = r)
        \<and> (connectionStatus (wsStore r) = Connected \<longrightarrow>
             (\<exists>k. ws (wsStore r) = Some k \<and> k < length (sockets r) \<and> readyState (sockets r ! k) = OPEN
                \<and> transmitted (sockets b' ! k) = transmitted (sockets r ! k) @ [d]))"
  proof (cases "connectionStatus (wsStore r) = Connected")
    case False
    then show ?thesis using drop [of r] by simp
  next
    case True
    with inv have h: "holds_open_socket r" by (simp add: connected_inv_def)
    from send_open [OF True h, of d] obtain k where
      k: "ws (wsStore r) = Some k"
      and s: "send d r = Inr (r\<lparr>sockets := (sockets r)[k := (sockets r ! k)\<lparr>transmitted := transmitted (sockets r ! k) @ [d]\<rparr>]\<rparr>)"
      by blast
    from h k have "k < length (sockets r)" and "readyState (sockets r ! k) = OPEN"
      by (simp_all add: holds_open_socket_def)
    then show ?thesis using True k s by simp
  qed
  show ?thesis
    using drop [of b] reach unfolding r_def by blast
qed

theorem send_only_when_connected_witness:
  "send StateRequest (run [CallConnect ''p1''] initialBrowser) = Inr (run [CallConnect ''p1''] initialBrowser)
   \<and> send StateRequest initialBrowser = Inr initialBrowser
   \<and> connectionStatus (wsStore (run [CallConnect ''p1'', SocketOpens 0] initialBrowser)) = Connected
   \<and> (\<exists>b'. send StateRequest (run [CallConnect ''p1'', SocketOpens 0] initialBrowser) = Inr b'
         \<and> transmitted (sockets b' ! 0) = [StateRequest])"
proof -
  have a: "connectionStatus (wsStore (run [CallConnect ''p1''] initialBrowser)) \<noteq> Connected"
    by (simp add: connect_def initialBrowser_def Let_def)
  have b: "connectionStatus (wsStore initialBrowser) \<noteq> Connected"
    by (simp add: initialBrowser_def)
  have c: "connectionStatus (wsStore (run [CallConnect ''p1'', SocketOpens 0] initialBrowser)) = Connected
      \<and> ws (wsStore (run [CallConnect ''p1'', SocketOpens 0] initialBrowser)) = Some 0
      \<and> transmitted (sockets (run [CallConnect ''p1'', SocketOpens 0] initialBrowser) ! 0) = []"
    by (simp add: connect_def initialBrowser_def Let_def socket_opens_def onopen_def)
  show ?thesis
    using send_only_when_connected [of "run [CallConnect ''p1''] initialBrowser" StateRequest
        "[CallConnect ''p1'', SocketOpens 0]"]
      send_only_when_connected [of initialBrowser StateRequest "[]"] a b c
    by auto
qed

lemma reconnect_delay_mono: "reconnect_delay n \<le> reconnect_delay (Suc n)"
  by (simp add: reconnect_delay_def min_def)

lemma reconnect_delay_bound: "reconnect_delay n \<le> 10000"
  by (simp add: reconnect_delay_def)

lemma close_last_retry:
  assumes "retry_ready a b" and "a < 5"
  shows "timers (socket_closes (length (sockets b) - 1) b) = [(reconnect_delay a, ws_pipeline (last (sockets b)))]"
    and "retry_ready (Suc a) (timer_fires 0 (socket_closes (length (sockets b) - 1) b))"
  using assms
  by (auto simp: retry_ready_def socket_closes_def onclose_def Let_def last_conv_nth
      timer_fires_def reconnect_callback_def connect_def)

lemma close_last_give_up:
  assumes "retry_ready a b" and "5 \<le> a"
  shows "timers (socket_closes (length (sockets b) - 1) b) = []"
    and "connectionStatus (wsStore (socket_closes (length (sockets b) - 1) b)) = Disconnected"
    and "reconnectAttempts (wsStore (socket_closes (length (sockets b) - 1) b)) = a"
    and "readyState (last (sockets (socket_closes (length (sockets b) - 1) b))) = CLOSED"
  using assms
  by (auto simp: retry_ready_def socket_closes_def onclose_def Let_def last_conv_nth)

lemma failing_run_delays:
  "retry_ready a b \<Longrightarrow> fst (failing_run n b) = map reconnect_delay [a..<min (a + n) 5]"
proof (induction n arbitrary: a b)
  case 0
  then show ?case by simp
next
  case (Suc n)
  show ?case
  proof (cases "a < 5")
    case True
    note t = close_last_retry [OF Suc.prems True]
    have "fst (failing_run n (timer_fires 0 (socket_closes (length (sockets b) - 1) b)))
        = map reconnect_delay [Suc a..<min (Suc a + n) 5]"
      using Suc.IH [OF t(2)] .
    moreover have "[a..<min (a + Suc n) 5] = a # [Suc a..<min (Suc a + n) 5]"
    proof -
      have "a < min (a + Suc n) 5" using True by simp
      then have "[a..<min (a + Suc n) 5] = a # [Suc a..<min (a + Suc n) 5]"
        by (rule upt_conv_Cons)
      then show ?thesis by simp
    qed
    ultimately show ?thesis
      using t(1)
      by (cases "failing_run n (timer_fires 0 (socket_closes (length (sockets b) - 1) b))")
        (simp add: Let_def)
  next
    case False
    then have "timers (socket_closes (length (sockets b) - 1) b) = []"
      using close_last_give_up(1) [OF Suc.prems] by simp
    then show ?thesis using False by (simp add: Let_def)
  qed
qed

lemma failing_run_gives_up:
  "retry_ready a b \<Longrightarrow> a \<le> 5 \<Longrightarrow> 5 < a + n \<Longrightarrow> gave_up (snd (failing_run n b))"
proof (induction n arbitrary: a b)
  case 0
  then show ?case by simp
next
  case (Suc n)
  show ?case
  proof (cases "a < 5")
    case True
    note t = close_last_retry [OF Suc.prems(1) True]
    have "gave_up (snd (failing_run n (timer_fires 0 (socket_closes (length (sockets b) - 1) b))))"
      using Suc.IH [OF t(2)] True Suc.prems(3) by simp
    then show ?thesis
      using t(1)
      by (cases "failing_run n (timer_fires 0 (socket_closes (length (sockets b) - 1) b))")
        (simp add: Let_def)
  next
    case False
    with Suc.prems have a5: "a = 5" by simp
    note g = close_last_give_up [OF Suc.prems(1), of ]
    show ?thesis
      using g a5 by (simp add: Let_def gave_up_def)
  qed
qed

lemma retry_ready_connect: "retry_ready 0 (connect p initialBrowser)"
  by (simp add: retry_ready_def connect_def initialBrowser_def Let_def)

text \<open>
  C5: the delay for attempt \<open>n\<close> never exceeds the delay for attempt \<open>n + 1\<close> and never exceeds
  the ceiling of 10000 ms. A close with fewer than five attempts counted schedules one timer
  with that delay; a close with five or more counted schedules nothing. From a fresh
  \<open>connect\<close>, \<open>m\<close> failed attempts in a row schedule the delays of attempts \<open>0, 1, ...\<close> up to
  the fifth, and after the sixth close the store has given up: no timer is pending and the
  status is \<open>disconnected\<close>.
\<close>

theorem backoff_bounded_and_capped:
  "reconnect_delay n \<le> reconnect_delay (Suc n)
   \<and> reconnect_delay n \<le> 10000
   \<and> (5 \<le> reconnectAttempts (wsStore b) \<longrightarrow>
        timers (onclose k b) = timers b \<and> timers (socket_closes k b) = timers b)
   \<and> (reconnectAttempts (wsStore b) < 5 \<longrightarrow>
        timers (onclose k b)
          = timers b @ [(reconnect_delay (reconnectAttempts (wsStore b)), ws_pipeline (sockets b ! k))])
   \<and> fst (failing_run m (connect p initialBrowser)) = map reconnect_delay [0..<min m 5]
   \<and> (5 < m \<longrightarrow> gave_up (snd (failing_run m (connect p initialBrowser))))"
proof -
  have cap: "5 \<le> reconnectAttempts (wsStore b) \<Longrightarrow>
        timers (onclose k b) = timers b \<and> timers (socket_closes k b) = timers b"
    by (simp add: onclose_def socket_closes_def Let_def)
  have sched: "reconnectAttempts (wsStore b) < 5 \<Longrightarrow>
        timers (onclose k b)
          = timers b @ [(reconnect_delay (reconnectAttempts (wsStore b)), ws_pipeline (sockets b ! k))]"
    by (simp add: onclose_def Let_def)
  have run: "fst (failing_run m (connect p initialBrowser)) = map reconnect_delay [0..<min m 5]"
    using failing_run_delays [OF retry_ready_connect [of p], of m] by simp
  have stop: "5 < m \<Longrightarrow> gave_up (snd (failing_run m (connect p initialBrowser)))"
    using failing_run_gives_up [OF retry_ready_connect [of p], of m] by simp
  show ?thesis
    using reconnect_delay_mono [of n] reconnect_delay_bound [of n] cap sched run stop by blast
qed

theorem backoff_bounded_and_capped_witness:
  "fst (failing_run 5 (connect ''p1'' initialBrowser)) = [1000, 2000, 4000, 8000, 10000]
   \<and> fst (failing_run 6 (connect ''p1'' initialBrowser)) = [1000, 2000, 4000, 8000, 10000]
   \<and> gave_up (snd (failing_run 6 (connect ''p1'' initialBrowser)))
   \<and> timers (onclose 0 (snd (failing_run 6 (connect ''p1'' initialBrowser)))) = []"
proof -
  have l5: "[0..<min 5 (5::nat)] = [0, 1, 2, 3, 4]" and l6: "[0..<min 6 (5::nat)] = [0, 1, 2, 3, 4]"
    by (simp_all add: upt_rec)
  have d: "map reconnect_delay [0, 1, 2, 3, 4] = [1000, 2000, 4000, 8000, 10000]"
    by (simp add: reconnect_delay_def)
  have g: "gave_up (snd (failing_run 6 (connect ''p1'' initialBrowser)))"
    using backoff_bounded_and_capped [of 0 initialBrowser 0 6 "''p1''"] by simp
  then have a5: "5 \<le> reconnectAttempts (wsStore (snd (failing_run 6 (connect ''p1'' initialBrowser))))"
    and t: "timers (snd (failing_run 6 (connect ''p1'' initialBrowser))) = []"
    by (simp_all add: gave_up_def)
  show ?thesis
    using backoff_bounded_and_capped [of 0 initialBrowser 0 5 "''p1''"]
      backoff_bounded_and_capped [of 0 initialBrowser 0 6 "''p1''"]
      backoff_bounded_and_capped [of 0 "snd (failing_run 6 (connect ''p1'' initialBrowser))" 0 6 "''p1''"]
      l5 l6 d g a5 t
    by simp
qed

subsection \<open>What \<open>disconnect\<close> does, and what follows it\<close>

lemma socket_close_length: "length (socket_close j ss) = length ss"
  by (simp add: socket_close_def)

lemma socket_close_pipeline: "i < length ss \<Longrightarrow> ws_pipeline (socket_close j ss ! i) = ws_pipeline (ss ! i)"
  by (simp add: socket_close_def nth_list_update)

lemma socket_close_closed:
  "i < length ss \<Longrightarrow> (readyState (socket_close j ss ! i) = CLOSED) = (readyState (ss ! i) = CLOSED)"
  by (auto simp: socket_close_def nth_list_update)

text \<open>
  With no socket held, \<open>disconnect\<close> is a no-op. With a socket held it starts closing that
  socket, clears the reference and sets the status to \<open>disconnected\<close>. In both cases it keeps
  the attempt counter and the pending timers, and the close event of a socket afterwards
  schedules a timer exactly when fewer than five attempts are counted.
\<close>

lemma disconnect_effect:
  "timers (disconnect b) = timers b
   \<and> (ws (wsStore b) = None \<longrightarrow> disconnect b = b)
   \<and> sockets (disconnect b)
       = (case ws (wsStore b) of None \<Rightarrow> sockets b | Some j \<Rightarrow> socket_close j (sockets b))
   \<and> ws (wsStore (disconnect b)) = None
   \<and> reconnectAttempts (wsStore (disconnect b)) = reconnectAttempts (wsStore b)
   \<and> connectionStatus (wsStore (disconnect b))
       = (if ws (wsStore b) = None then connectionStatus (wsStore b) else Disconnected)
   \<and> (ws (wsStore b) = Some k \<and> k < length (sockets b) \<and> readyState (sockets b ! k) = OPEN \<longrightarrow>
        readyState (sockets (disconnect b) ! k) = CLOSING)
   \<and> timers (socket_closes k (disconnect b))
       = (if k < length (sockets b) \<and> readyState (sockets b ! k) \<noteq> CLOSED
             \<and> reconnectAttempts (wsStore b) < 5
          then timers b @ [(reconnect_delay (reconnectAttempts (wsStore b)), ws_pipeline (sockets b ! k))]
          else timers b)"
proof -
  have basics: "timers (disconnect b) = timers b" "ws (wsStore (disconnect b)) = None"
    "reconnectAttempts (wsStore (disconnect b)) = reconnectAttempts (wsStore b)"
    "connectionStatus (wsStore (disconnect b))
       = (if ws (wsStore b) = None then connectionStatus (wsStore b) else Disconnected)"
    by (simp_all add: disconnect_def split: option.splits)
  have closing: "ws (wsStore b) = Some k \<and> k < length (sockets b) \<and> readyState (sockets b ! k) = OPEN \<longrightarrow>
        readyState (sockets (disconnect b) ! k) = CLOSING"
    by (simp add: disconnect_def socket_close_def)
  have len: "length (sockets (disconnect b)) = length (sockets b)"
    by (simp add: disconnect_def socket_close_length split: option.splits)
  have pip: "ws_pipeline (sockets (disconnect b) ! k) = ws_pipeline (sockets b ! k)" if "k < length (sockets b)"
    using that by (simp add: disconnect_def socket_close_pipeline split: option.splits)
  have cl: "(readyState (sockets (disconnect b) ! k) = CLOSED) = (readyState (sockets b ! k) = CLOSED)"
    if "k < length (sockets b)"
    using that by (simp add: disconnect_def socket_close_closed split: option.splits)
  have after: "timers (socket_closes k (disconnect b))
       = (if k < length (sockets b) \<and> readyState (sockets b ! k) \<noteq> CLOSED
             \<and> reconnectAttempts (wsStore b) < 5
          then timers b @ [(reconnect_delay (reconnectAttempts (wsStore b)), ws_pipeline (sockets b ! k))]
          else timers b)"
  proof (cases "k < length (sockets b)")
    case True
    show ?thesis
      using basics len pip [OF True] cl [OF True] True
      by (simp add: socket_closes_def onclose_def Let_def)
  next
    case False
    then show ?thesis using basics len by (simp add: socket_closes_def)
  qed
  have noop: "ws (wsStore b) = None \<longrightarrow> disconnect b = b"
    by (simp add: disconnect_def)
  have socks: "sockets (disconnect b)
       = (case ws (wsStore b) of None \<Rightarrow> sockets b | Some j \<Rightarrow> socket_close j (sockets b))"
    by (simp add: disconnect_def split: option.splits)
  show ?thesis using basics closing after noop socks by blast
qed

text \<open>
  C3 fails on the code. The claim: after \<open>disconnect()\<close> no reconnection is scheduled or
  performed until the caller calls \<open>connect\<close> again. The code: the caller connects, the socket
  opens, the caller disconnects; the close event of that socket then schedules a timer of
  1000 ms, and when it elapses a second socket is created and opens, with no call of
  \<open>connect\<close> in between. A timer that is pending when \<open>disconnect\<close> is called stays pending.
  When the caller has moved on to a second pipeline in the meantime, the reconnection to the
  first one closes the socket of the second, whose close event in turn schedules a
  reconnection that closes the socket of the first.
\<close>

theorem disconnect_followed_by_reconnect:
  "timers (run [CallConnect ''p1'', SocketOpens 0, CallDisconnect, SocketCloses 0] initialBrowser)
     = [(1000, ''p1'')]
   \<and> length (sockets (run [CallConnect ''p1'', SocketOpens 0, CallDisconnect] initialBrowser)) = 1
   \<and> length (sockets (run [CallConnect ''p1'', SocketOpens 0, CallDisconnect, SocketCloses 0, TimerFires 0]
         initialBrowser)) = 2
   \<and> readyState (sockets (run [CallConnect ''p1'', SocketOpens 0, CallDisconnect, SocketCloses 0, TimerFires 0]
         initialBrowser) ! 1) = CONNECTING
   \<and> connectionStatus (wsStore (run [CallConnect ''p1'', SocketOpens 0, CallDisconnect, SocketCloses 0,
         TimerFires 0, SocketOpens 1] initialBrowser)) = Connected
   \<and> timers (run [CallConnect ''p1'', SocketCloses 0, CallDisconnect] initialBrowser) = [(1000, ''p1'')]
   \<and> map (\<lambda>s. (ws_pipeline s, readyState s))
        (sockets (run [CallConnect ''p1'', SocketOpens 0, CallDisconnect, CallConnect ''p2'', SocketOpens 1,
           SocketCloses 0, TimerFires 0] initialBrowser))
       = [(''p1'', CLOSED), (''p2'', CLOSING), (''p1'', CONNECTING)]
   \<and> map (\<lambda>s. (ws_pipeline s, readyState s))
        (sockets (run [CallConnect ''p1'', SocketOpens 0, CallDisconnect, CallConnect ''p2'', SocketOpens 1,
           SocketCloses 0, TimerFires 0, SocketOpens 2, SocketCloses 1, TimerFires 0] initialBrowser))
       = [(''p1'', CLOSED), (''p2'', CLOSED), (''p1'', CLOSING), (''p2'', CONNECTING)]"
  by (simp add: initialBrowser_def connect_def disconnect_def socket_opens_def socket_closes_def
      onopen_def onclose_def timer_fires_def reconnect_callback_def socket_close_def
      reconnect_delay_def Let_def)

section \<open>Properties of approval resolution\<close>

lemma resolve_not_pending:
  "find (\<lambda>a. ap_id a = aid) (pending_approvals w) = None \<Longrightarrow>
     resolve elapsed aid ok w = (w, recorded_status aid w)"
  by (simp add: resolve_def)

lemma resolve_clears_pending:
  "find (\<lambda>a. ap_id a = aid) (pending_approvals (fst (resolve elapsed aid ok w))) = None"
proof (cases "find (\<lambda>a. ap_id a = aid) (pending_approvals w)")
  case None
  then show ?thesis by (simp add: resolve_def)
next
  case (Some a)
  then show ?thesis by (simp add: resolve_def find_None_iff Let_def)
qed

lemma resolve_via_resolve: "resolve_via aid r w = fst (resolve (clock_at r) aid (decision r) w)"
  by (simp add: resolve_via_def split: Channel.splits)

lemma resolve_all_settled:
  "find (\<lambda>a. ap_id a = aid) (pending_approvals w) = None \<Longrightarrow> resolve_all aid rs w = w"
  by (induction rs) (simp_all add: resolve_via_resolve resolve_not_pending)

lemma resolve_all_first: "resolve_all aid (r # rs) w = fst (resolve (clock_at r) aid (decision r) w)"
  using resolve_all_settled [OF resolve_clears_pending, of aid rs "clock_at r" "decision r" w]
  by (simp add: resolve_via_resolve)

lemma filter_absent: "aid \<notin> ap_id ` set xs \<Longrightarrow> filter (\<lambda>a. ap_id a = aid) xs = []"
  by (induction xs) auto

lemma find_absent_append:
  "aid \<notin> ap_id ` set xs \<Longrightarrow> ap_id a = aid \<Longrightarrow> find (\<lambda>a. ap_id a = aid) (xs @ [a]) = Some a"
  by (induction xs) auto

lemma find_Some_id: "find (\<lambda>a. ap_id a = aid) xs = Some a \<Longrightarrow> ap_id a = aid"
  by (induction xs) (auto split: if_splits)

lemma resolve_pending:
  assumes "find (\<lambda>a. ap_id a = aid) (pending_approvals w) = Some a"
    and "aid \<notin> ap_id ` set (approval_history w)"
  shows "recorded_status aid (fst (resolve elapsed aid ok w))
      = Some (if is_expired elapsed a then Expired else terminal_status ok)"
    and "length (history_entries aid (fst (resolve elapsed aid ok w))) = 1"
    and "aid \<notin> ap_id ` set (pending_approvals (fst (resolve elapsed aid ok w)))"
    and "snd (resolve elapsed aid ok w) = Some (if is_expired elapsed a then Expired else terminal_status ok)"
proof -
  note f = assms(1)
  have a: "ap_id a = aid" using find_Some_id [OF f] .
  show "recorded_status aid (fst (resolve elapsed aid ok w))
      = Some (if is_expired elapsed a then Expired else terminal_status ok)"
    using f a
      find_absent_append [OF assms(2), of "a\<lparr>ap_status := Expired\<rparr>"]
      find_absent_append [OF assms(2), of "a\<lparr>ap_status := terminal_status ok\<rparr>"]
    by (simp add: resolve_def recorded_status_def Let_def)
  show "length (history_entries aid (fst (resolve elapsed aid ok w))) = 1"
    using f a filter_absent [OF assms(2)] by (simp add: resolve_def history_entries_def Let_def)
  show "aid \<notin> ap_id ` set (pending_approvals (fst (resolve elapsed aid ok w)))"
    using f by (auto simp: resolve_def Let_def)
  show "snd (resolve elapsed aid ok w) = Some (if is_expired elapsed a then Expired else terminal_status ok)"
    using f by (simp add: resolve_def Let_def)
qed

lemma approveAction_records_answer:
  "currentWorkflow s \<noteq> None \<Longrightarrow>
     currentWorkflow (fst (approveAction (approve_endpoint elapsed srv) aid ok reason s))
       = Some (fst (resolve elapsed aid ok srv))
     \<and> pendingApprovals (fst (approveAction (approve_endpoint elapsed srv) aid ok reason s))
         = pending_approvals (fst (resolve elapsed aid ok srv))"
  by (auto simp: approveAction_def approveAction_start_def approveAction_settle_def approve_endpoint_def)

text \<open>
  C2: for an approval \<open>a\<close> that is pending and has no entry in the history, any number of
  resolutions of its id, over either channel, with any decisions and at any clocks after
  the first, leave the snapshot that the first one alone leaves. The recorded status is the
  outcome of the first resolution: its decision, or \<open>expired\<close> when the approval's expiry had
  elapsed by then, in which case no decision is ever recorded. The history has exactly one
  entry for the id, and the id is pending no more. A further \<open>resolve\<close>, at any clock,
  changes nothing and returns the recorded outcome, and the store's \<open>approveAction\<close> then
  records that same snapshot.
\<close>

theorem first_resolution_wins:
  assumes "find (\<lambda>a. ap_id a = aid) (pending_approvals w) = Some a"
    and "aid \<notin> ap_id ` set (approval_history w)"
  shows "resolve_all aid (r # rs) w = resolve_all aid [r] w
    \<and> recorded_status aid (resolve_all aid (r # rs) w)
        = Some (if is_expired (clock_at r) a then Expired else terminal_status (decision r))
    \<and> length (history_entries aid (resolve_all aid (r # rs) w)) = 1
    \<and> aid \<notin> ap_id ` set (pending_approvals (resolve_all aid (r # rs) w))
    \<and> resolve elapsed aid ok (resolve_all aid (r # rs) w)
        = (resolve_all aid (r # rs) w,
           Some (if is_expired (clock_at r) a then Expired else terminal_status (decision r)))
    \<and> (currentWorkflow s \<noteq> None \<longrightarrow>
         currentWorkflow
           (fst (approveAction (approve_endpoint elapsed (resolve_all aid (r # rs) w)) aid ok reason s))
           = Some (resolve_all aid (r # rs) w))"
proof -
  let ?w1 = "fst (resolve (clock_at r) aid (decision r) w)"
  let ?out = "Some (if is_expired (clock_at r) a then Expired else terminal_status (decision r))"
  have all: "resolve_all aid (r # rs) w = ?w1" by (rule resolve_all_first)
  have one: "resolve_all aid [r] w = ?w1" by (rule resolve_all_first)
  note p = resolve_pending [OF assms, of "clock_at r" "decision r"]
  have np: "find (\<lambda>a. ap_id a = aid) (pending_approvals ?w1) = None"
    by (rule resolve_clears_pending)
  have again: "resolve elapsed aid ok ?w1 = (?w1, ?out)"
    using resolve_not_pending [OF np, of elapsed ok] p(1) by simp
  have client: "currentWorkflow s \<noteq> None \<longrightarrow>
         currentWorkflow (fst (approveAction (approve_endpoint elapsed ?w1) aid ok reason s)) = Some ?w1"
    using approveAction_records_answer [of s elapsed ?w1 aid ok reason] again by simp
  show ?thesis
    unfolding all one using p(1) p(2) p(3) again client by blast
qed

theorem first_resolution_wins_witness:
  "recorded_status ''A1''
     (resolve_all ''A1''
        [\<lparr>via = PushChannel, decision = True, clock_at = nothing_elapsed\<rparr>,
         \<lparr>via = RequestResponse, decision = False, clock_at = nothing_elapsed\<rparr>] awaiting_A1)
     = Some Approved
   \<and> length (history_entries ''A1''
        (resolve_all ''A1''
           [\<lparr>via = PushChannel, decision = True, clock_at = nothing_elapsed\<rparr>,
            \<lparr>via = RequestResponse, decision = False, clock_at = nothing_elapsed\<rparr>] awaiting_A1)) = 1
   \<and> recorded_status ''A2''
     (resolve_all ''A2''
        [\<lparr>via = RequestResponse, decision = True, clock_at = after_2020\<rparr>,
         \<lparr>via = PushChannel, decision = True, clock_at = after_2020\<rparr>] awaiting_A2)
     = Some Expired
   \<and> length (history_entries ''A2''
        (resolve_all ''A2''
           [\<lparr>via = RequestResponse, decision = True, clock_at = after_2020\<rparr>,
            \<lparr>via = PushChannel, decision = True, clock_at = after_2020\<rparr>] awaiting_A2)) = 1
   \<and> recorded_status ''A2''
     (resolve_all ''A2''
        [\<lparr>via = PushChannel, decision = False, clock_at = nothing_elapsed\<rparr>,
         \<lparr>via = RequestResponse, decision = True, clock_at = after_2020\<rparr>] awaiting_A2)
     = Some Rejected"
proof -
  define a1 where "a1 = sample_approval ''A1''"
  define a2 where "a2 = (sample_approval ''A2'')\<lparr>ap_expires_at := Some ''2020-01-01T00:00:00Z''\<rparr>"
  have f1: "find (\<lambda>a. ap_id a = ''A1'') (pending_approvals awaiting_A1) = Some a1"
    by (simp add: awaiting_A1_def sample_approval_def a1_def)
  have h1: "''A1'' \<notin> ap_id ` set (approval_history awaiting_A1)"
    by (simp add: awaiting_A1_def sample_workflow_def)
  have f2: "find (\<lambda>a. ap_id a = ''A2'') (pending_approvals awaiting_A2) = Some a2"
    by (simp add: awaiting_A2_def sample_approval_def a2_def)
  have h2: "''A2'' \<notin> ap_id ` set (approval_history awaiting_A2)"
    by (simp add: awaiting_A2_def sample_workflow_def)
  have e1: "\<not> is_expired nothing_elapsed a1" and e2: "is_expired after_2020 a2"
    and e3: "\<not> is_expired nothing_elapsed a2"
    by (simp_all add: is_expired_def nothing_elapsed_def after_2020_def a1_def a2_def sample_approval_def)
  note t1 = first_resolution_wins [OF f1 h1,
      of "\<lparr>via = PushChannel, decision = True, clock_at = nothing_elapsed\<rparr>"
         "[\<lparr>via = RequestResponse, decision = False, clock_at = nothing_elapsed\<rparr>]"
         nothing_elapsed True initialWorkflowStore None]
  note t2 = first_resolution_wins [OF f2 h2,
      of "\<lparr>via = RequestResponse, decision = True, clock_at = after_2020\<rparr>"
         "[\<lparr>via = PushChannel, decision = True, clock_at = after_2020\<rparr>]"
         nothing_elapsed True initialWorkflowStore None]
  note t3 = first_resolution_wins [OF f2 h2,
      of "\<lparr>via = PushChannel, decision = False, clock_at = nothing_elapsed\<rparr>"
         "[\<lparr>via = RequestResponse, decision = True, clock_at = after_2020\<rparr>]"
         nothing_elapsed True initialWorkflowStore None]
  have r1: "recorded_status ''A1''
     (resolve_all ''A1''
        [\<lparr>via = PushChannel, decision = True, clock_at = nothing_elapsed\<rparr>,
         \<lparr>via = RequestResponse, decision = False, clock_at = nothing_elapsed\<rparr>] awaiting_A1)
     = Some Approved"
    using t1 [THEN conjunct2, THEN conjunct1] e1
    by (simp add: terminal_status_def del: resolve_all.simps)
  have r2: "recorded_status ''A2''
     (resolve_all ''A2''
        [\<lparr>via = RequestResponse, decision = True, clock_at = after_2020\<rparr>,
         \<lparr>via = PushChannel, decision = True, clock_at = after_2020\<rparr>] awaiting_A2)
     = Some Expired"
    using t2 [THEN conjunct2, THEN conjunct1] e2 by (simp del: resolve_all.simps)
  have r3: "recorded_status ''A2''
     (resolve_all ''A2''
        [\<lparr>via = PushChannel, decision = False, clock_at = nothing_elapsed\<rparr>,
         \<lparr>via = RequestResponse, decision = True, clock_at = after_2020\<rparr>] awaiting_A2)
     = Some Rejected"
    using t3 [THEN conjunct2, THEN conjunct1] e3
    by (simp add: terminal_status_def del: resolve_all.simps)
  show ?thesis
    using r1 r2 r3 t1 [THEN conjunct2, THEN conjunct2, THEN conjunct1]
      t2 [THEN conjunct2, THEN conjunct2, THEN conjunct1]
    by blast
qed

text \<open>
  The dialog's two submissions: once the server has resolved the id (over the push channel,
  say), a decision submitted by the dialog, whatever it is, returns normally, leaves the
  store with the server's snapshot and closes the dialog.
\<close>

lemma send_reachable_returns: "\<exists>b'. send d (run es initialBrowser) = Inr b'"
proof (cases "connectionStatus (wsStore (run es initialBrowser)) = Connected")
  case True
  have "connected_inv (run es initialBrowser)"
    by (rule connected_inv_run [OF connected_inv_initial])
  with True have "holds_open_socket (run es initialBrowser)"
    by (simp add: connected_inv_def)
  from send_open [OF True this, of d] show ?thesis by blast
next
  case False
  then show ?thesis by (simp add: send_def split: option.splits)
qed

lemma dialog_decision_after_resolution:
  assumes "find (\<lambda>a. ap_id a = aid) (pending_approvals srv) = None"
    and "currentWorkflow (am_workflow v) \<noteq> None"
    and "am_browser v = run es initialBrowser"
  shows "\<exists>v' rqs. handleReject (approve_endpoint elapsed srv) aid reason v = Inr (v', rqs)
      \<and> currentWorkflow (am_workflow v') = Some srv \<and> currentApproval v' = None"
    and "\<exists>v' rqs. handleApprove (approve_endpoint elapsed srv) aid reason v = Inr (v', rqs)
      \<and> currentWorkflow (am_workflow v') = Some srv \<and> currentApproval v' = None"
proof -
  have keep: "currentWorkflow (fst (approveAction (approve_endpoint elapsed srv) aid ok reason (am_workflow v)))
      = Some srv" for ok
    using approveAction_records_answer [OF assms(2), of elapsed srv aid ok reason]
      resolve_not_pending [OF assms(1), of elapsed ok] by simp
  from send_reachable_returns [of "ApprovalFrame aid False reason" es] obtain b1
    where b1: "send (ApprovalFrame aid False reason) (am_browser v) = Inr b1"
    using assms(3) by auto
  from send_reachable_returns [of "ApprovalFrame aid True reason" es] obtain b2
    where b2: "send (ApprovalFrame aid True reason) (am_browser v) = Inr b2"
    using assms(3) by auto
  show "\<exists>v' rqs. handleReject (approve_endpoint elapsed srv) aid reason v = Inr (v', rqs)
      \<and> currentWorkflow (am_workflow v') = Some srv \<and> currentApproval v' = None"
    using b1 keep [of False]
    by (cases "approveAction (approve_endpoint elapsed srv) aid False reason (am_workflow v)")
      (simp add: handleReject_def)
  show "\<exists>v' rqs. handleApprove (approve_endpoint elapsed srv) aid reason v = Inr (v', rqs)
      \<and> currentWorkflow (am_workflow v') = Some srv \<and> currentApproval v' = None"
    using b2 keep [of True]
    by (cases "approveAction (approve_endpoint elapsed srv) aid True reason (am_workflow v)")
      (simp add: handleApprove_def)
qed

end
